theory Spec2Isabelle
  imports Main
begin

section \<open>Documents of the store\<close>

text \<open>
  The backend keeps one collection per entity. A collection is a list of documents in
  insertion order: \<open>findOne\<close> answers the first document that matches, and
  \<open>findOneAndUpdate\<close> / \<open>findOneAndDelete\<close> touch that same first document.
  Numbers are integers; an absent (\<open>undefined\<close>) field of a request is \<open>None\<close>.
  The schemas of the collections (models/) are not among the sources: the fields of a
  document are those the handlers read and write, and \<open>save\<close> of a new document
  inserts it at the end of its collection.
\<close>

text \<open>
  A user document is split so that the answer of a handler, which deletes the
  \<open>password\<close> key before it sends the document, is the public part alone.
\<close>

record UserPublic =
  userID :: string
  firstName :: "string option"
  lastName :: "string option"
  username :: "string option"
  email :: string
  phoneNumber :: "string option"
  address :: "string option"
  gender :: "string option"
  isStudent :: bool

record User = UserPublic +
  password :: string

record InstructorPublic =
  InstructorID :: string
  InstructorName :: string
  instructor_email :: string
  InstructorLocation :: string
  InstructorExperience :: int
  isInstructor :: bool

record Instructor = InstructorPublic +
  instructor_password :: string

record Vehicle =
  vehicle_vehicleID :: string
  vehicleNO :: string
  vehicleType :: string
  transmissionType :: string
  fuelType :: string
  availability :: bool
  studentCnt :: int

record PhysicalTraining =
  sessionID :: string
  date :: string
  time :: string
  location :: string
  vehicleID :: string
  instructorID :: string
  maxCount :: int
  currentCount :: int
  status :: string
  instructorQualification :: "string option"

text \<open>
  An enrollment row. \<open>enroll_id\<close> is the document's \<open>_id\<close>, \<open>enroll_date\<close> the
  timestamp taken by \<open>new Date()\<close>.
\<close>

record EnrollPTS =
  enroll_id :: nat
  enroll_userID :: string
  enroll_sessionID :: string
  enroll_status :: string
  enroll_date :: nat

record Counter =
  counter_name :: string
  counter_value :: int

text \<open>
  The whole store. \<open>nextObjectId\<close> stands for the generator of fresh \<open>_id\<close> values:
  a new enrollment document takes the current value and the generator moves on.
\<close>

record store =
  users :: "User list"
  instructors :: "Instructor list"
  vehicles :: "Vehicle list"
  sessions :: "PhysicalTraining list"
  enrollments :: "EnrollPTS list"
  counters :: "Counter list"
  nextObjectId :: nat

section \<open>Requests and responses\<close>

text \<open>
  What \<open>jwt.verify\<close> decodes into \<open>req.user\<close>. A key the signer did not put into the
  payload is \<open>None\<close>.
\<close>

record token_payload =
  tok_id :: string
  tok_email :: string
  tok_username :: "string option"
  tok_name :: "string option"
  tok_isStudent :: "bool option"
  tok_isInstructor :: "bool option"
  tok_isAdmin :: "bool option"

text \<open>
  The JSON envelope of every answer: the HTTP status, the \<open>success\<close> flag, the message
  and the document (or documents) returned with it, if any.
\<close>

record 'a response =
  res_status :: nat
  success :: bool
  message :: string
  payload :: "'a option"

definition fail :: "nat \<Rightarrow> string \<Rightarrow> 'a response" where
  "fail c m = \<lparr>res_status = c, success = False, message = m, payload = None\<rparr>"

definition ok :: "nat \<Rightarrow> string \<Rightarrow> 'a option \<Rightarrow> 'a response" where
  "ok c m d = \<lparr>res_status = c, success = True, message = m, payload = d\<rparr>"

text \<open>JavaScript truthiness of an optional string, number and boolean.\<close>

fun truthy_str :: "string option \<Rightarrow> bool" where
  "truthy_str None = False"
| "truthy_str (Some s) = (s \<noteq> [])"

fun truthy_num :: "int option \<Rightarrow> bool" where
  "truthy_num None = False"
| "truthy_num (Some n) = (n \<noteq> 0)"

fun truthy_bool :: "bool option \<Rightarrow> bool" where
  "truthy_bool None = False"
| "truthy_bool (Some b) = b"

text \<open>The value of a key that is known to be present.\<close>

definition str_of :: "string option \<Rightarrow> string" where
  "str_of x = (case x of Some v \<Rightarrow> v | None \<Rightarrow> [])"

definition num_of :: "int option \<Rightarrow> int" where
  "num_of x = (case x of Some v \<Rightarrow> v | None \<Rightarrow> 0)"

section \<open>Collection primitives\<close>

fun update_first :: "('a \<Rightarrow> bool) \<Rightarrow> ('a \<Rightarrow> 'a) \<Rightarrow> 'a list \<Rightarrow> 'a list" where
  "update_first P f [] = []"
| "update_first P f (x # xs) = (if P x then f x # xs else x # update_first P f xs)"

fun delete_first :: "('a \<Rightarrow> bool) \<Rightarrow> 'a list \<Rightarrow> 'a list" where
  "delete_first P [] = []"
| "delete_first P (x # xs) = (if P x then xs else x # delete_first P xs)"

definition User_findOne :: "store \<Rightarrow> string \<Rightarrow> User option" where
  "User_findOne s uid = find (\<lambda>u. userID u = uid) (users s)"

definition User_findOne_email :: "store \<Rightarrow> string \<Rightarrow> User option" where
  "User_findOne_email s e = find (\<lambda>u. email u = e) (users s)"

definition Instructor_findOne :: "store \<Rightarrow> string \<Rightarrow> Instructor option" where
  "Instructor_findOne s i = find (\<lambda>d. InstructorID d = i) (instructors s)"

definition Instructor_findOne_email :: "store \<Rightarrow> string \<Rightarrow> Instructor option" where
  "Instructor_findOne_email s e = find (\<lambda>d. instructor_email d = e) (instructors s)"

definition Vehicle_findOne :: "store \<Rightarrow> string \<Rightarrow> Vehicle option" where
  "Vehicle_findOne s v = find (\<lambda>d. vehicle_vehicleID d = v) (vehicles s)"

definition PhysicalTraining_findOne :: "store \<Rightarrow> string \<Rightarrow> PhysicalTraining option" where
  "PhysicalTraining_findOne s sid = find (\<lambda>d. sessionID d = sid) (sessions s)"

definition EnrollPTS_findOne :: "store \<Rightarrow> string \<Rightarrow> string \<Rightarrow> EnrollPTS option" where
  "EnrollPTS_findOne s uid sid =
     find (\<lambda>e. enroll_userID e = uid \<and> enroll_sessionID e = sid) (enrollments s)"

definition EnrollPTS_findById :: "store \<Rightarrow> nat \<Rightarrow> EnrollPTS option" where
  "EnrollPTS_findById s i = find (\<lambda>e. enroll_id e = i) (enrollments s)"

text \<open>\<open>PhysicalTraining.findOneAndUpdate({ sessionID }, { $inc: { currentCount: d } })\<close>\<close>

definition inc_currentCount :: "string \<Rightarrow> int \<Rightarrow> store \<Rightarrow> store" where
  "inc_currentCount sid d s =
     s\<lparr>sessions := update_first (\<lambda>p. sessionID p = sid)
                     (\<lambda>p. p\<lparr>currentCount := currentCount p + d\<rparr>) (sessions s)\<rparr>"

section \<open>Enrollment ledger (enrollPTSController)\<close>

text \<open>
  \<open>enrollStudent\<close>: \<open>now\<close> is the clock read by \<open>new Date()\<close>, \<open>usr\<close> is \<open>req.user\<close>
  and \<open>sid\<close> is \<open>req.body.sessionID\<close>.
\<close>

definition enrollStudent ::
  "store \<Rightarrow> nat \<Rightarrow> token_payload \<Rightarrow> string option \<Rightarrow> store \<times> EnrollPTS response" where
  "enrollStudent s now usr sid =
     (if \<not> truthy_str sid then (s, fail 400 ''Session ID is required'')
      else
        (let sessID = str_of sid; uid = tok_id usr in
         case User_findOne s uid of
           None \<Rightarrow> (s, fail 404 ''User not found'')
         | Some user \<Rightarrow>
             (case PhysicalTraining_findOne s sessID of
                None \<Rightarrow> (s, fail 404 ''Physical training session not found'')
              | Some session \<Rightarrow>
                  if status session \<noteq> ''pending''
                  then (s, fail 400 ''Cannot enroll in a completed session'')
                  else if currentCount session \<ge> maxCount session
                  then (s, fail 400 ''Session is full'')
                  else
                    (case EnrollPTS_findOne s uid sessID of
                       Some existingEnrollment \<Rightarrow>
                         (s, fail 400 ''You are already enrolled in this session'')
                     | None \<Rightarrow>
                         (let enrollment =
                                \<lparr>enroll_id = nextObjectId s, enroll_userID = uid,
                                 enroll_sessionID = sessID, enroll_status = ''pending'',
                                 enroll_date = now\<rparr>;
                              s1 = s\<lparr>enrollments := enrollments s @ [enrollment],
                                     nextObjectId := Suc (nextObjectId s)\<rparr>;
                              s2 = inc_currentCount sessID 1 s1
                          in (s2, ok 201 ''Successfully enrolled in physical training session''
                                    (Some enrollment)))))))"

text \<open>
  \<open>updateEnrollmentStatus\<close>: \<open>eid\<close> is \<open>req.params.id\<close>, \<open>None\<close> when the string is no
  well-formed \<open>_id\<close> (the lookup then throws and the handler answers 500); \<open>st\<close> is
  \<open>req.body.status\<close>.
\<close>

definition updateEnrollmentStatus ::
  "store \<Rightarrow> nat option \<Rightarrow> string option \<Rightarrow> store \<times> EnrollPTS response" where
  "updateEnrollmentStatus s eid st =
     (if \<not> truthy_str st \<or> str_of st \<notin> set [''pending'', ''completed'', ''absent'']
      then (s, fail 400 ''Valid status (pending/completed/absent) is required'')
      else
        (let new_status = str_of st in
         case eid of
           None \<Rightarrow> (s, fail 500 ''Failed to update enrollment status'')
         | Some i \<Rightarrow>
             (case EnrollPTS_findById s i of
                None \<Rightarrow> (s, fail 404 ''Enrollment not found'')
              | Some enrollment \<Rightarrow>
                  (let enrollment' = enrollment\<lparr>enroll_status := new_status\<rparr>;
                       s' = s\<lparr>enrollments := update_first (\<lambda>e. enroll_id e = i)
                                 (\<lambda>e. enrollment') (enrollments s)\<rparr>
                   in (s', ok 200 (''Enrollment status updated to \"'' @ new_status @ ''\"'')
                             (Some enrollment'))))))"

text \<open>\<open>cancelEnrollment\<close>: \<open>usr\<close> is \<open>req.user\<close>, \<open>eid\<close> is \<open>req.params.id\<close>.\<close>

definition cancelEnrollment ::
  "store \<Rightarrow> token_payload \<Rightarrow> nat option \<Rightarrow> store \<times> EnrollPTS response" where
  "cancelEnrollment s usr eid =
     (case eid of
        None \<Rightarrow> (s, fail 500 ''Failed to cancel enrollment'')
      | Some i \<Rightarrow>
          (case EnrollPTS_findById s i of
             None \<Rightarrow> (s, fail 404 ''Enrollment not found'')
           | Some enrollment \<Rightarrow>
               if tok_id usr \<noteq> enroll_userID enrollment \<and> \<not> truthy_bool (tok_isAdmin usr)
               then (s, fail 403 ''Access denied'')
               else
                 (let session = PhysicalTraining_findOne s (enroll_sessionID enrollment) in
                  if (case session of Some p \<Rightarrow> status p = ''completed'' | None \<Rightarrow> False)
                  then (s, fail 400 ''Cannot cancel enrollment for a completed session'')
                  else
                    (let s1 = s\<lparr>enrollments :=
                                   delete_first (\<lambda>e. enroll_id e = i) (enrollments s)\<rparr>;
                         s2 = (case session of
                                 Some p \<Rightarrow> inc_currentCount (enroll_sessionID enrollment) (- 1) s1
                               | None \<Rightarrow> s1)
                     in (s2, ok 200 ''Enrollment canceled successfully'' None)))))"

section \<open>Session registry (physicalTrainingController)\<close>

text \<open>\<open>String(n)\<close> of an integer and \<open>padStart\<close> with a one-character filler.\<close>

definition digit_char :: "nat \<Rightarrow> char" where
  "digit_char d = char_of (48 + d)"

fun digits :: "nat \<Rightarrow> string" where
  "digits n = (if n < 10 then [digit_char n] else digits (n div 10) @ [digit_char (n mod 10)])"

declare digits.simps [simp del]

definition String_num :: "int \<Rightarrow> string" where
  "String_num i = (if i < 0 then CHR ''-'' # digits (nat (- i)) else digits (nat i))"

definition padStart :: "nat \<Rightarrow> char \<Rightarrow> string \<Rightarrow> string" where
  "padStart n c s = replicate (n - length s) c @ s"

definition Counter_findOne :: "store \<Rightarrow> string \<Rightarrow> Counter option" where
  "Counter_findOne s n = find (\<lambda>c. counter_name c = n) (counters s)"

text \<open>
  \<open>getNextSequenceValue\<close>: the counter document is incremented and read back in one
  step (\<open>new: true\<close>); a counter that does not exist yet is inserted by the upsert, and
  \<open>$inc\<close> on the missing field leaves the value 1.
\<close>

definition getNextSequenceValue :: "store \<Rightarrow> string \<Rightarrow> store \<times> string" where
  "getNextSequenceValue s sequenceName =
     (case Counter_findOne s sequenceName of
        None \<Rightarrow>
          (s\<lparr>counters := counters s @ [\<lparr>counter_name = sequenceName, counter_value = 1\<rparr>]\<rparr>,
           ''PT'' @ padStart 4 CHR ''0'' (String_num 1))
      | Some counter \<Rightarrow>
          (s\<lparr>counters := update_first (\<lambda>c. counter_name c = sequenceName)
                            (\<lambda>c. c\<lparr>counter_value := counter_value c + 1\<rparr>) (counters s)\<rparr>,
           ''PT'' @ padStart 4 CHR ''0'' (String_num (counter_value counter + 1))))"

text \<open>The body of a create or update request; every key may be absent.\<close>

record training_body =
  body_date :: "string option"
  body_time :: "string option"
  body_location :: "string option"
  body_vehicleID :: "string option"
  body_instructorID :: "string option"
  body_maxCount :: "int option"
  body_status :: "string option"
  body_currentCount :: "int option"
  body_instructorQualification :: "string option"

definition createPhysicalTraining ::
  "store \<Rightarrow> training_body \<Rightarrow> store \<times> PhysicalTraining response" where
  "createPhysicalTraining s b =
     (if \<not> truthy_str (body_date b) \<or> \<not> truthy_str (body_time b) \<or>
         \<not> truthy_str (body_location b) \<or> \<not> truthy_str (body_vehicleID b) \<or>
         \<not> truthy_str (body_instructorID b) \<or> \<not> truthy_num (body_maxCount b)
      then (s, fail 400 ''All required fields must be provided'')
      else
        (case Vehicle_findOne s (str_of (body_vehicleID b)) of
           None \<Rightarrow> (s, fail 404 ''Vehicle not found'')
         | Some vehicle \<Rightarrow>
             (case Instructor_findOne s (str_of (body_instructorID b)) of
                None \<Rightarrow> (s, fail 404 ''Instructor not found'')
              | Some instructor \<Rightarrow>
                  (let (s1, sessID) = getNextSequenceValue s ''sessionID'';
                       newSession =
                         \<lparr>sessionID = sessID, date = str_of (body_date b),
                          time = str_of (body_time b), location = str_of (body_location b),
                          vehicleID = str_of (body_vehicleID b),
                          instructorID = str_of (body_instructorID b),
                          maxCount = num_of (body_maxCount b), currentCount = 0,
                          status = ''pending'',
                          instructorQualification = body_instructorQualification b\<rparr>;
                       s2 = s1\<lparr>sessions := sessions s1 @ [newSession]\<rparr>
                   in (s2, ok 201 ''Physical training session created successfully''
                             (Some newSession))))))"

text \<open>
  The \<open>updateData\<close> object of \<open>updatePhysicalTraining\<close>, applied to the stored document:
  a key is written when the request carries it (truthy for the strings, not
  \<open>undefined\<close> for the two counts).
\<close>

definition updateData :: "training_body \<Rightarrow> PhysicalTraining \<Rightarrow> PhysicalTraining" where
  "updateData b p =
     p\<lparr>date := (if truthy_str (body_date b) then str_of (body_date b) else date p),
       time := (if truthy_str (body_time b) then str_of (body_time b) else time p),
       location := (if truthy_str (body_location b) then str_of (body_location b)
                    else location p),
       vehicleID := (if truthy_str (body_vehicleID b) then str_of (body_vehicleID b)
                     else vehicleID p),
       instructorID := (if truthy_str (body_instructorID b) then str_of (body_instructorID b)
                        else instructorID p),
       maxCount := (case body_maxCount b of Some m \<Rightarrow> m | None \<Rightarrow> maxCount p),
       status := (if truthy_str (body_status b) then str_of (body_status b) else status p),
       currentCount := (case body_currentCount b of Some c \<Rightarrow> c | None \<Rightarrow> currentCount p),
       instructorQualification :=
         (if truthy_str (body_instructorQualification b) then body_instructorQualification b
          else instructorQualification p)\<rparr>"

definition updatePhysicalTraining ::
  "store \<Rightarrow> string \<Rightarrow> training_body \<Rightarrow> store \<times> PhysicalTraining response" where
  "updatePhysicalTraining s sid b =
     (if \<not> truthy_str (body_date b) \<and> \<not> truthy_str (body_time b) \<and>
         \<not> truthy_str (body_location b) \<and> \<not> truthy_str (body_vehicleID b) \<and>
         \<not> truthy_str (body_instructorID b) \<and> body_maxCount b = None \<and>
         \<not> truthy_str (body_status b) \<and> body_currentCount b = None \<and>
         \<not> truthy_str (body_instructorQualification b)
      then (s, fail 400 ''At least one field is required to update'')
      else
        (case PhysicalTraining_findOne s sid of
           None \<Rightarrow> (s, fail 404 ''Physical training session not found'')
         | Some existingSession \<Rightarrow>
             if truthy_str (body_vehicleID b) \<and>
                Vehicle_findOne s (str_of (body_vehicleID b)) = None
             then (s, fail 404 ''Vehicle not found'')
             else if truthy_str (body_instructorID b) \<and>
                Instructor_findOne s (str_of (body_instructorID b)) = None
             then (s, fail 404 ''Instructor not found'')
             else if truthy_str (body_status b) \<and>
                str_of (body_status b) \<notin> set [''pending'', ''completed'']
             then (s, fail 400 ''Status must be either \"pending\" or \"completed\"'')
             else if (case body_currentCount b of
                        None \<Rightarrow> False
                      | Some c \<Rightarrow>
                          c > (case body_maxCount b of Some m \<Rightarrow> m
                               | None \<Rightarrow> maxCount existingSession))
             then (s, fail 400 ''Current count cannot exceed max count'')
             else
               (let s' = s\<lparr>sessions := update_first (\<lambda>p. sessionID p = sid) (updateData b)
                                          (sessions s)\<rparr>
                in (s', ok 200 ''Physical training session updated successfully''
                          (PhysicalTraining_findOne s' sid)))))"

definition deletePhysicalTraining :: "store \<Rightarrow> string \<Rightarrow> store \<times> PhysicalTraining response" where
  "deletePhysicalTraining s sid =
     (case PhysicalTraining_findOne s sid of
        None \<Rightarrow> (s, fail 404 ''Physical training session not found'')
      | Some session \<Rightarrow>
          if currentCount session > 0
          then (s, fail 400 ''Cannot delete session with enrolled users'')
          else (s\<lparr>sessions := delete_first (\<lambda>p. sessionID p = sid) (sessions s)\<rparr>,
                ok 200 ''Physical training session deleted successfully'' None))"

definition updateSessionStatus ::
  "store \<Rightarrow> string \<Rightarrow> string option \<Rightarrow> store \<times> PhysicalTraining response" where
  "updateSessionStatus s sid st =
     (if \<not> truthy_str st \<or> str_of st \<notin> set [''pending'', ''completed'']
      then (s, fail 400 ''Valid status (pending/completed) is required'')
      else
        (case PhysicalTraining_findOne s sid of
           None \<Rightarrow> (s, fail 404 ''Physical training session not found'')
         | Some session \<Rightarrow>
             (let s' = s\<lparr>sessions := update_first (\<lambda>p. sessionID p = sid)
                                        (\<lambda>p. p\<lparr>status := str_of st\<rparr>) (sessions s)\<rparr>
              in (s', ok 200 (''Session status updated to \"'' @ str_of st @ ''\"'')
                        (PhysicalTraining_findOne s' sid)))))"

section \<open>Accounts and tokens (authController, instructorController)\<close>

text \<open>
  A token as \<open>jwt.sign(payload, JWT_SECRET, { expiresIn })\<close> builds it: the payload it
  was given and the validity it was asked for. The signature plays no part in what the
  handlers decide and is left out.
\<close>

record token =
  token_payload_of :: token_payload
  expiresIn :: string

definition jwt_sign :: "token_payload \<Rightarrow> string \<Rightarrow> token" where
  "jwt_sign p e = \<lparr>token_payload_of = p, expiresIn = e\<rparr>"

definition JWT_EXPIRES_IN :: string where
  "JWT_EXPIRES_IN = ''24h''"

text \<open>
  What a handler draws from outside the store: the identifier minted by \<open>uuidv4()\<close>,
  the salted hash computed by \<open>bcrypt.hash\<close> and the check made by \<open>bcrypt.compare\<close>.
\<close>

record env =
  uuidv4 :: string
  bcrypt_hash :: "string \<Rightarrow> string"
  bcrypt_compare :: "string \<Rightarrow> string \<Rightarrow> bool"

record register_body =
  reg_firstName :: "string option"
  reg_lastName :: "string option"
  reg_username :: "string option"
  reg_password :: "string option"
  reg_email :: string
  reg_phoneNumber :: "string option"
  reg_address :: "string option"
  reg_gender :: "string option"
  reg_isStudent :: "bool option"

text \<open>
  Modelled from the spec: the \<open>User\<close> schema (models/User) is not among the sources.
  The spec says that uniqueness is enforced by the pre-check query and not by a
  constraint of the storage, so \<open>newUser.save()\<close> is the plain insertion of the document
  at the end of the collection.
\<close>

definition User_save :: "store \<Rightarrow> User \<Rightarrow> store" where
  "User_save s u = s\<lparr>users := users s @ [u]\<rparr>"

text \<open>
  \<open>register\<close>. A body without a password makes \<open>bcrypt.hash\<close> throw, which the
  handler's \<open>catch\<close> answers with 500.
\<close>

definition register ::
  "env \<Rightarrow> store \<Rightarrow> register_body \<Rightarrow> store \<times> (UserPublic \<times> token) response" where
  "register ev s b =
     (case User_findOne_email s (reg_email b) of
        Some existingUser \<Rightarrow>
          (s, fail 400 ''User with this email or username already exists'')
      | None \<Rightarrow>
          (case reg_password b of
             None \<Rightarrow> (s, fail 500 ''Registration failed'')
           | Some pw \<Rightarrow>
               (let hashedPassword = bcrypt_hash ev pw;
                    newUser =
                      \<lparr>userID = uuidv4 ev, firstName = reg_firstName b,
                       lastName = reg_lastName b, username = reg_username b,
                       email = reg_email b, phoneNumber = reg_phoneNumber b,
                       address = reg_address b, gender = reg_gender b,
                       isStudent = (case reg_isStudent b of Some v \<Rightarrow> v | None \<Rightarrow> True),
                       password = hashedPassword\<rparr>;
                    s' = User_save s newUser;
                    tk = jwt_sign
                           \<lparr>tok_id = userID newUser, tok_email = email newUser,
                            tok_username = username newUser, tok_name = None,
                            tok_isStudent = None, tok_isInstructor = None,
                            tok_isAdmin = None\<rparr>
                           JWT_EXPIRES_IN
                in (s', ok 201 ''User registered successfully''
                          (Some (UserPublic.truncate newUser, tk))))))"

definition login ::
  "env \<Rightarrow> store \<Rightarrow> string option \<Rightarrow> string option \<Rightarrow> (UserPublic \<times> token) response" where
  "login ev s em pw =
     (if \<not> truthy_str em \<or> \<not> truthy_str pw
      then fail 400 ''Email and password are required''
      else
        (case User_findOne_email s (str_of em) of
           None \<Rightarrow> fail 401 ''Invalid credentials''
         | Some user \<Rightarrow>
             if \<not> bcrypt_compare ev (str_of pw) (password user)
             then fail 401 ''Invalid credentials''
             else
               (let tk = jwt_sign
                           \<lparr>tok_id = userID user, tok_email = email user,
                            tok_username = username user, tok_name = None,
                            tok_isStudent = None, tok_isInstructor = None,
                            tok_isAdmin = None\<rparr>
                           JWT_EXPIRES_IN
                in ok 200 ''Login successful'' (Some (UserPublic.truncate user, tk)))))"

definition instructorLogin ::
  "env \<Rightarrow> store \<Rightarrow> string option \<Rightarrow> string option \<Rightarrow> (InstructorPublic \<times> token) response"
  where
  "instructorLogin ev s em pw =
     (if \<not> truthy_str em \<or> \<not> truthy_str pw
      then fail 400 ''Email and password are required''
      else
        (case Instructor_findOne_email s (str_of em) of
           None \<Rightarrow> fail 401 ''Invalid credentials''
         | Some instructor \<Rightarrow>
             if \<not> bcrypt_compare ev (str_of pw) (instructor_password instructor)
             then fail 401 ''Invalid credentials''
             else
               (let tk = jwt_sign
                           \<lparr>tok_id = InstructorID instructor,
                            tok_email = instructor_email instructor,
                            tok_username = None,
                            tok_name = Some (InstructorName instructor),
                            tok_isStudent = None, tok_isInstructor = Some True,
                            tok_isAdmin = None\<rparr>
                           ''24h''
                in ok 200 ''Login successful''
                     (Some (InstructorPublic.truncate instructor, tk)))))"

section \<open>Authentication, role gates and routes\<close>

text \<open>
  The bearer value of a request as \<open>authenticate\<close> sees it: none at all, one that
  \<open>jwt.verify\<close> rejects, or one that it decodes.
\<close>

datatype credential = NoToken | InvalidToken | ValidToken token_payload

definition authenticate :: "credential \<Rightarrow> 'a response + token_payload" where
  "authenticate c =
     (case c of
        NoToken \<Rightarrow> Inl (fail 401 ''Authentication required. Please login.'')
      | InvalidToken \<Rightarrow> Inl (fail 403 ''Invalid or expired token. Please login again.'')
      | ValidToken decoded \<Rightarrow> Inr decoded)"

text \<open>The gates of \<open>checkRole\<close>: \<open>None\<close> lets the request through to the next handler.\<close>

definition checkRole_isInstructor :: "token_payload \<Rightarrow> 'a response option" where
  "checkRole_isInstructor usr =
     (if truthy_bool (tok_isInstructor usr) then None
      else Some (fail 403 ''Access denied. Instructor role required.''))"

definition checkRole_isStudent :: "token_payload \<Rightarrow> 'a response option" where
  "checkRole_isStudent usr =
     (if truthy_bool (tok_isStudent usr) then None
      else Some (fail 403 ''Access denied. Student role required.''))"

definition checkRole_isAdmin :: "token_payload \<Rightarrow> 'a response option" where
  "checkRole_isAdmin usr =
     (if truthy_bool (tok_isAdmin usr) then None
      else Some (fail 403 ''Access denied. Administrator role required.''))"

text \<open>\<open>router.post('/', authenticate, isStudent, enrollPTSController.enrollStudent)\<close>\<close>

definition enrollPTS_post ::
  "store \<Rightarrow> nat \<Rightarrow> credential \<Rightarrow> string option \<Rightarrow> store \<times> EnrollPTS response" where
  "enrollPTS_post s now c sid =
     (case authenticate c of
        Inl r \<Rightarrow> (s, r)
      | Inr usr \<Rightarrow>
          (case checkRole_isStudent usr of
             Some r \<Rightarrow> (s, r)
           | None \<Rightarrow> enrollStudent s now usr sid))"

text \<open>\<open>router.patch('/:id', authenticate, enrollPTSController.updateEnrollmentStatus)\<close>\<close>

definition enrollPTS_patch ::
  "store \<Rightarrow> credential \<Rightarrow> nat option \<Rightarrow> string option \<Rightarrow> store \<times> EnrollPTS response" where
  "enrollPTS_patch s c eid st =
     (case authenticate c of
        Inl r \<Rightarrow> (s, r)
      | Inr usr \<Rightarrow> updateEnrollmentStatus s eid st)"

text \<open>\<open>router.delete('/:id', authenticate, enrollPTSController.cancelEnrollment)\<close>\<close>

definition enrollPTS_delete ::
  "store \<Rightarrow> credential \<Rightarrow> nat option \<Rightarrow> store \<times> EnrollPTS response" where
  "enrollPTS_delete s c eid =
     (case authenticate c of
        Inl r \<Rightarrow> (s, r)
      | Inr usr \<Rightarrow> cancelEnrollment s usr eid)"

section \<open>The identifier format in the words of the specification\<close>

text \<open>
  The four decimal digits of a sequence number, leading zeros included: thousands,
  hundreds, tens, units.
\<close>

definition four_digits :: "nat \<Rightarrow> string" where
  "four_digits n =
     [digit_char (n div 1000 mod 10), digit_char (n div 100 mod 10),
      digit_char (n div 10 mod 10), digit_char (n mod 10)]"

text \<open>The value a string of decimal digits denotes.\<close>

definition digits_value :: "string \<Rightarrow> nat" where
  "digits_value cs = foldl (\<lambda>a c. 10 * a + (of_char c - 48)) 0 cs"

text \<open>The value the counter of a sequence holds after the next increment.\<close>

definition next_value :: "store \<Rightarrow> string \<Rightarrow> int" where
  "next_value s n = (case Counter_findOne s n of None \<Rightarrow> 1 | Some c \<Rightarrow> counter_value c + 1)"

section \<open>The capacity bound in the words of the specification\<close>

text \<open>For all sessions, \<open>0 \<le> currentCount \<le> maxCount\<close>.\<close>

definition capacity_ok :: "store \<Rightarrow> bool" where
  "capacity_ok s = (\<forall>p\<in>set (sessions s). 0 \<le> currentCount p \<and> currentCount p \<le> maxCount p)"

section \<open>A small school, for the concrete runs\<close>

definition alice :: User where
  "alice = \<lparr>userID = ''u-alice'', firstName = Some ''Alice'', lastName = Some ''Perera'',
            username = Some ''alice'', email = ''alice@example.com'', phoneNumber = None,
            address = None, gender = None, isStudent = True, password = ''#pw-alice''\<rparr>"

definition bob :: User where
  "bob = \<lparr>userID = ''u-bob'', firstName = Some ''Bob'', lastName = Some ''Silva'',
          username = Some ''bob'', email = ''bob@example.com'', phoneNumber = None,
          address = None, gender = None, isStudent = True, password = ''#pw-bob''\<rparr>"

definition nimal :: Instructor where
  "nimal = \<lparr>InstructorID = ''i-nimal'', InstructorName = ''Nimal'',
            instructor_email = ''nimal@example.com'', InstructorLocation = ''Kandy'',
            InstructorExperience = 7, isInstructor = True,
            instructor_password = ''#pw-nimal''\<rparr>"

definition car :: Vehicle where
  "car = \<lparr>vehicle_vehicleID = ''v-car'', vehicleNO = ''CAB-1234'', vehicleType = ''car'',
          transmissionType = ''manual'', fuelType = ''petrol'', availability = True,
          studentCnt = 0\<rparr>"

definition school :: store where
  "school = \<lparr>users = [alice, bob], instructors = [nimal], vehicles = [car], sessions = [],
             enrollments = [], counters = [], nextObjectId = 0\<rparr>"

text \<open>
  The school once the first session has been minted: the given sessions and enrollment
  rows, the session counter at 1 and one \<open>_id\<close> used up per row.
\<close>

definition school_with :: "PhysicalTraining list \<Rightarrow> EnrollPTS list \<Rightarrow> store" where
  "school_with ps es =
     school\<lparr>sessions := ps, enrollments := es,
            counters := [\<lparr>counter_name = ''sessionID'', counter_value = 1\<rparr>],
            nextObjectId := length es\<rparr>"

text \<open>A decoded token that carries the given identifier and the three role flags.\<close>

definition token_of :: "string \<Rightarrow> bool option \<Rightarrow> bool option \<Rightarrow> bool option \<Rightarrow> token_payload"
  where
  "token_of i st ins ad =
     \<lparr>tok_id = i, tok_email = i @ ''@example.com'', tok_username = None, tok_name = None,
      tok_isStudent = st, tok_isInstructor = ins, tok_isAdmin = ad\<rparr>"

text \<open>A create request for a session with \<open>m\<close> seats, and the session it leads to.\<close>

definition seats :: "int \<Rightarrow> training_body" where
  "seats m = \<lparr>body_date = Some ''2025-06-01'', body_time = Some ''09:00'',
              body_location = Some ''Kandy'', body_vehicleID = Some ''v-car'',
              body_instructorID = Some ''i-nimal'', body_maxCount = Some m,
              body_status = None, body_currentCount = None,
              body_instructorQualification = None\<rparr>"

definition pt1 :: "int \<Rightarrow> int \<Rightarrow> string \<Rightarrow> PhysicalTraining" where
  "pt1 c m st = \<lparr>sessionID = ''PT0001'', date = ''2025-06-01'', time = ''09:00'',
                 location = ''Kandy'', vehicleID = ''v-car'', instructorID = ''i-nimal'',
                 maxCount = m, currentCount = c, status = st,
                 instructorQualification = None\<rparr>"

definition row :: "nat \<Rightarrow> string \<Rightarrow> string \<Rightarrow> EnrollPTS" where
  "row i u st = \<lparr>enroll_id = i, enroll_userID = u, enroll_sessionID = ''PT0001'',
                 enroll_status = st, enroll_date = 0\<rparr>"

text \<open>An update request that carries \<open>maxCount\<close> and \<open>currentCount\<close> only.\<close>

definition counts :: "int option \<Rightarrow> int option \<Rightarrow> training_body" where
  "counts m c = \<lparr>body_date = None, body_time = None, body_location = None,
                 body_vehicleID = None, body_instructorID = None, body_maxCount = m,
                 body_status = None, body_currentCount = c,
                 body_instructorQualification = None\<rparr>"

definition carol_body :: register_body where
  "carol_body = \<lparr>reg_firstName = Some ''Carol'', reg_lastName = Some ''Fernando'',
                 reg_username = Some ''alice'', reg_password = Some ''secret'',
                 reg_email = ''carol@example.com'', reg_phoneNumber = None,
                 reg_address = None, reg_gender = None, reg_isStudent = None\<rparr>"

definition carol :: User where
  "carol = \<lparr>userID = ''u-carol'', firstName = Some ''Carol'', lastName = Some ''Fernando'',
            username = Some ''alice'', email = ''carol@example.com'', phoneNumber = None,
            address = None, gender = None, isStudent = True, password = ''#secret''\<rparr>"

definition test_env :: env where
  "test_env = \<lparr>uuidv4 = ''u-carol'', bcrypt_hash = (\<lambda>p. ''#'' @ p),
               bcrypt_compare = (\<lambda>p h. h = ''#'' @ p)\<rparr>"

section \<open>Facts about the collection primitives\<close>


lemma find_update_first:
  "find P xs = Some p \<Longrightarrow>
   \<exists>k<length xs. xs ! k = p \<and> update_first P f xs = xs[k := f p]"
proof (induction xs)
  case Nil
  then show ?case by simp
next
  case (Cons x xs)
  show ?case
  proof (cases "P x")
    case True
    with Cons.prems have "x = p" by simp
    with True have "(x # xs) ! 0 = p \<and> update_first P f (x # xs) = (x # xs)[0 := f p]"
      by simp
    then show ?thesis by blast
  next
    case False
    with Cons.prems have "find P xs = Some p" by simp
    from Cons.IH [OF this] obtain k where
      k: "k < length xs" "xs ! k = p" "update_first P f xs = xs[k := f p]" by blast
    with False have "Suc k < length (x # xs) \<and> (x # xs) ! Suc k = p \<and>
        update_first P f (x # xs) = (x # xs)[Suc k := f p]"
      by simp
    then show ?thesis by blast
  qed
qed

lemma set_update_first:
  "find P xs = Some p \<Longrightarrow> set (update_first P f xs) \<subseteq> insert (f p) (set xs)"
  by (induction xs) (auto split: if_splits)

lemma find_None_update_first: "find P xs = None \<Longrightarrow> update_first P f xs = xs"
  by (induction xs) (auto split: if_splits)

lemma find_None_delete_first: "find P xs = None \<Longrightarrow> delete_first P xs = xs"
  by (induction xs) (auto split: if_splits)

lemma find_delete_first: "find P xs = Some e \<Longrightarrow> delete_first P xs = remove1 e xs"
proof (induction xs)
  case Nil
  then show ?case by simp
next
  case (Cons x xs)
  show ?case
  proof (cases "P x")
    case True
    with Cons.prems show ?thesis by simp
  next
    case False
    with Cons.prems have f: "find P xs = Some e" by simp
    then have "P e" by (auto simp: find_Some_iff)
    with False have "x \<noteq> e" by auto
    with False Cons.IH [OF f] show ?thesis by simp
  qed
qed

lemma find_same_update_first:
  "(\<And>x. P x \<Longrightarrow> P (f x)) \<Longrightarrow> find P (update_first P f xs) = map_option f (find P xs)"
  by (induction xs) auto

lemma find_other_update_first:
  "(\<And>x. P x \<Longrightarrow> \<not> Q x \<and> \<not> Q (f x)) \<Longrightarrow> find Q (update_first P f xs) = find Q xs"
  by (induction xs) auto

lemma find_delete_first_distinct:
  "distinct (map g xs) \<Longrightarrow> find (\<lambda>x. g x = a) (delete_first (\<lambda>x. g x = a) xs) = None"
proof (induction xs)
  case Nil
  then show ?case by simp
next
  case (Cons x xs)
  show ?case
  proof (cases "g x = a")
    case True
    with Cons.prems have "a \<notin> g ` set xs" by simp
    then have "find (\<lambda>x. g x = a) xs = None" by (auto simp: find_None_iff)
    with True show ?thesis by simp
  next
    case False
    with Cons show ?thesis by simp
  qed
qed

lemma find_other_delete_first:
  "a \<noteq> b \<Longrightarrow> find (\<lambda>x. g x = b) (delete_first (\<lambda>x. g x = a) xs) = find (\<lambda>x. g x = b) xs"
  by (induction xs) auto


lemma enrollStudent_fails_unchanged:
  "\<not> success (snd (enrollStudent s now usr sid)) \<Longrightarrow> fst (enrollStudent s now usr sid) = s"
  by (auto simp: enrollStudent_def Let_def fail_def ok_def split: option.splits if_splits)

section \<open>Concrete runs on the small school\<close>

lemma mint_first: "padStart 4 CHR ''0'' (String_num 1) = ''0001''"
  by code_simp

lemma school_create:
  "m \<noteq> 0 \<Longrightarrow> createPhysicalTraining school (seats m) =
     (school_with [pt1 0 m ''pending''] [],
      ok 201 ''Physical training session created successfully'' (Some (pt1 0 m ''pending'')))"
  by (simp add: createPhysicalTraining_def school_def seats_def Vehicle_findOne_def
      Instructor_findOne_def car_def nimal_def str_of_def num_of_def getNextSequenceValue_def
      Counter_findOne_def mint_first school_with_def pt1_def Let_def)

lemma school_enroll_alice:
  "c < m \<Longrightarrow>
   enrollStudent (school_with [pt1 c m ''pending''] []) 0 (token_of ''u-alice'' st ins ad)
     (Some ''PT0001'') =
     (school_with [pt1 (c + 1) m ''pending''] [row 0 ''u-alice'' ''pending''],
      ok 201 ''Successfully enrolled in physical training session''
        (Some (row 0 ''u-alice'' ''pending'')))"
  by (simp add: enrollStudent_def school_with_def school_def token_of_def User_findOne_def
      PhysicalTraining_findOne_def EnrollPTS_findOne_def alice_def pt1_def row_def str_of_def
      inc_currentCount_def Let_def)

section \<open>Enrolling into a full session\<close>

text \<open>
  C2 (as amended). An enroll request for an existing pending session whose
  \<open>currentCount\<close> has reached \<open>maxCount\<close> always fails and leaves the whole store as it
  was: no row is inserted and no session is touched. The answer is the 400
  ``Session is full'' when the caller's user document exists, the 404 ``User not found''
  when it does not (that check comes first), and the 400 ``Session ID is required'' for
  the empty identifier.
\<close>

theorem enroll_full_session_rejected:
  assumes "PhysicalTraining_findOne s sid = Some p"
    and "status p = ''pending''"
    and "maxCount p \<le> currentCount p"
  shows "enrollStudent s now usr (Some sid) =
           (s, if sid = [] then fail 400 ''Session ID is required''
               else if User_findOne s (tok_id usr) = None then fail 404 ''User not found''
               else fail 400 ''Session is full'')"
  using assms by (auto simp: enrollStudent_def Let_def str_of_def split: option.splits)

text \<open>Bob asks for the one seat that Alice already holds.\<close>

theorem enroll_full_session_rejected_witness:
  "enrollStudent (school_with [pt1 1 1 ''pending''] [row 0 ''u-alice'' ''pending'']) 7
     (token_of ''u-bob'' (Some True) None None) (Some ''PT0001'') =
   (school_with [pt1 1 1 ''pending''] [row 0 ''u-alice'' ''pending''],
    fail 400 ''Session is full'')"
  using enroll_full_session_rejected
      [of "school_with [pt1 1 1 ''pending''] [row 0 ''u-alice'' ''pending'']"
      "''PT0001''" "pt1 1 1 ''pending''" 7 "token_of ''u-bob'' (Some True) None None"]
  by (simp add: PhysicalTraining_findOne_def User_findOne_def school_with_def school_def
      pt1_def token_of_def alice_def bob_def)

text \<open>
  The claim as written fails for a caller whose user document is not in the store: the
  session is pending and full, yet the answer is 404, not 400.
\<close>

theorem enroll_full_session_unknown_user:
  "PhysicalTraining_findOne (school_with [pt1 1 1 ''pending''] [row 0 ''u-alice'' ''pending''])
       ''PT0001'' = Some (pt1 1 1 ''pending'') \<and>
   status (pt1 1 1 ''pending'') = ''pending'' \<and>
   currentCount (pt1 1 1 ''pending'') = maxCount (pt1 1 1 ''pending'') \<and>
   enrollStudent (school_with [pt1 1 1 ''pending''] [row 0 ''u-alice'' ''pending'']) 7
     (token_of ''u-zoe'' (Some True) None None) (Some ''PT0001'') =
   (school_with [pt1 1 1 ''pending''] [row 0 ''u-alice'' ''pending''],
    fail 404 ''User not found'') \<and>
   res_status (fail 404 ''User not found'' :: EnrollPTS response) \<noteq> 400"
  by (simp add: enrollStudent_def PhysicalTraining_findOne_def User_findOne_def school_with_def
      school_def pt1_def token_of_def alice_def bob_def str_of_def fail_def)

section \<open>Enrolling twice\<close>

text \<open>
  C3 (as amended). When a row for the (user, session) pair already exists, another enroll
  call by that user for that session never succeeds and leaves the whole store as it was:
  no row is inserted and \<open>currentCount\<close> does not move. The answer is that of the first
  check that fails, in the handler's order: 400 ``Session ID is required'' for the empty
  identifier, 404 ``User not found'', 404 ``Physical training session not found'',
  400 ``Cannot enroll in a completed session'' when the session is not pending,
  400 ``Session is full'' when \<open>currentCount\<close> has reached \<open>maxCount\<close>, and the duplicate
  rejection (400 ``You are already enrolled in this session'') exactly when all of these
  checks pass.
\<close>

theorem enroll_twice_rejected:
  assumes "EnrollPTS_findOne s (tok_id usr) sid = Some e"
  shows "enrollStudent s now usr (Some sid) =
           (s, if sid = [] then fail 400 ''Session ID is required''
               else if User_findOne s (tok_id usr) = None then fail 404 ''User not found''
               else
                 (case PhysicalTraining_findOne s sid of
                    None \<Rightarrow> fail 404 ''Physical training session not found''
                  | Some p \<Rightarrow>
                      if status p \<noteq> ''pending''
                      then fail 400 ''Cannot enroll in a completed session''
                      else if maxCount p \<le> currentCount p then fail 400 ''Session is full''
                      else fail 400 ''You are already enrolled in this session'')) \<and>
         (\<exists>r. enrollStudent s now usr (Some sid) = (s, r) \<and> \<not> success r \<and>
           ((r = fail 400 ''You are already enrolled in this session'') =
            (sid \<noteq> [] \<and> User_findOne s (tok_id usr) \<noteq> None \<and>
             (\<exists>p. PhysicalTraining_findOne s sid = Some p \<and> status p = ''pending'' \<and>
                  currentCount p < maxCount p))))"
proof -
  have eq: "enrollStudent s now usr (Some sid) =
           (s, if sid = [] then fail 400 ''Session ID is required''
               else if User_findOne s (tok_id usr) = None then fail 404 ''User not found''
               else
                 (case PhysicalTraining_findOne s sid of
                    None \<Rightarrow> fail 404 ''Physical training session not found''
                  | Some p \<Rightarrow>
                      if status p \<noteq> ''pending''
                      then fail 400 ''Cannot enroll in a completed session''
                      else if maxCount p \<le> currentCount p then fail 400 ''Session is full''
                      else fail 400 ''You are already enrolled in this session''))"
    using assms
    by (auto simp: enrollStudent_def Let_def str_of_def split: option.splits)
  have ex: "\<exists>r. enrollStudent s now usr (Some sid) = (s, r) \<and> \<not> success r \<and>
           ((r = fail 400 ''You are already enrolled in this session'') =
            (sid \<noteq> [] \<and> User_findOne s (tok_id usr) \<noteq> None \<and>
             (\<exists>p. PhysicalTraining_findOne s sid = Some p \<and> status p = ''pending'' \<and>
                  currentCount p < maxCount p)))"
    using assms
    by (auto simp: enrollStudent_def Let_def str_of_def fail_def split: option.splits)
  from eq ex show ?thesis by (rule conjI)
qed

text \<open>
  Alice enrolls again: into a session of two seats, one of them hers (the duplicate
  rejection); into a session that has been completed; and with her user document gone.
\<close>

theorem enroll_twice_rejected_witness:
  "enrollStudent (school_with [pt1 1 2 ''pending''] [row 0 ''u-alice'' ''pending'']) 7
     (token_of ''u-alice'' (Some True) None None) (Some ''PT0001'') =
   (school_with [pt1 1 2 ''pending''] [row 0 ''u-alice'' ''pending''],
    fail 400 ''You are already enrolled in this session'') \<and>
   enrollStudent (school_with [pt1 1 2 ''completed''] [row 0 ''u-alice'' ''pending'']) 7
     (token_of ''u-alice'' (Some True) None None) (Some ''PT0001'') =
   (school_with [pt1 1 2 ''completed''] [row 0 ''u-alice'' ''pending''],
    fail 400 ''Cannot enroll in a completed session'') \<and>
   enrollStudent
     ((school_with [pt1 1 2 ''pending''] [row 0 ''u-alice'' ''pending''])\<lparr>users := [bob]\<rparr>) 7
     (token_of ''u-alice'' (Some True) None None) (Some ''PT0001'') =
   ((school_with [pt1 1 2 ''pending''] [row 0 ''u-alice'' ''pending''])\<lparr>users := [bob]\<rparr>,
    fail 404 ''User not found'')"
proof -
  have a: "EnrollPTS_findOne (school_with [pt1 1 2 ''pending''] [row 0 ''u-alice'' ''pending''])
      (tok_id (token_of ''u-alice'' (Some True) None None)) ''PT0001'' =
      Some (row 0 ''u-alice'' ''pending'')"
    by (simp add: EnrollPTS_findOne_def school_with_def row_def token_of_def)
  have b: "EnrollPTS_findOne
      (school_with [pt1 1 2 ''completed''] [row 0 ''u-alice'' ''pending''])
      (tok_id (token_of ''u-alice'' (Some True) None None)) ''PT0001'' =
      Some (row 0 ''u-alice'' ''pending'')"
    by (simp add: EnrollPTS_findOne_def school_with_def row_def token_of_def)
  have c: "EnrollPTS_findOne
      ((school_with [pt1 1 2 ''pending''] [row 0 ''u-alice'' ''pending''])\<lparr>users := [bob]\<rparr>)
      (tok_id (token_of ''u-alice'' (Some True) None None)) ''PT0001'' =
      Some (row 0 ''u-alice'' ''pending'')"
    by (simp add: EnrollPTS_findOne_def school_with_def row_def token_of_def)
  from enroll_twice_rejected [OF a, of 7] enroll_twice_rejected [OF b, of 7]
    enroll_twice_rejected [OF c, of 7]
  show ?thesis
    by (simp add: PhysicalTraining_findOne_def User_findOne_def school_with_def school_def
        pt1_def token_of_def alice_def bob_def)
qed

text \<open>
  The claim as written fails when the session has a single seat: Alice enrolls into the
  freshly created session, her row exists, and her second call is answered by the
  capacity check (``Session is full''), not by the duplicate rejection. It fails as well
  when her row has outlived its session: the answer is then 404.
\<close>

theorem enroll_twice_full_session:
  "enrollStudent (fst (createPhysicalTraining school (seats 1))) 0
       (token_of ''u-alice'' (Some True) None None) (Some ''PT0001'') =
     (school_with [pt1 1 1 ''pending''] [row 0 ''u-alice'' ''pending''],
      ok 201 ''Successfully enrolled in physical training session''
        (Some (row 0 ''u-alice'' ''pending''))) \<and>
   EnrollPTS_findOne (school_with [pt1 1 1 ''pending''] [row 0 ''u-alice'' ''pending''])
       ''u-alice'' ''PT0001'' = Some (row 0 ''u-alice'' ''pending'') \<and>
   enrollStudent (school_with [pt1 1 1 ''pending''] [row 0 ''u-alice'' ''pending'']) 7
       (token_of ''u-alice'' (Some True) None None) (Some ''PT0001'') =
     (school_with [pt1 1 1 ''pending''] [row 0 ''u-alice'' ''pending''],
      fail 400 ''Session is full'') \<and>
   (fail 400 ''Session is full'' :: EnrollPTS response) \<noteq>
     fail 400 ''You are already enrolled in this session'' \<and>
   EnrollPTS_findOne (school_with [] [row 0 ''u-alice'' ''pending''])
       ''u-alice'' ''PT0001'' = Some (row 0 ''u-alice'' ''pending'') \<and>
   enrollStudent (school_with [] [row 0 ''u-alice'' ''pending'']) 7
       (token_of ''u-alice'' (Some True) None None) (Some ''PT0001'') =
     (school_with [] [row 0 ''u-alice'' ''pending''],
      fail 404 ''Physical training session not found'') \<and>
   res_status (fail 404 ''Physical training session not found'' :: EnrollPTS response) = 404"
proof -
  have "enrollStudent (school_with [pt1 1 1 ''pending''] [row 0 ''u-alice'' ''pending'']) 7
       (token_of ''u-alice'' (Some True) None None) (Some ''PT0001'') =
     (school_with [pt1 1 1 ''pending''] [row 0 ''u-alice'' ''pending''],
      fail 400 ''Session is full'')"
    by (simp add: enrollStudent_def PhysicalTraining_findOne_def User_findOne_def
        school_with_def school_def pt1_def token_of_def alice_def str_of_def Let_def)
  moreover have "EnrollPTS_findOne
       (school_with [pt1 1 1 ''pending''] [row 0 ''u-alice'' ''pending''])
       ''u-alice'' ''PT0001'' = Some (row 0 ''u-alice'' ''pending'')"
    by (simp add: EnrollPTS_findOne_def school_with_def row_def)
  moreover have "(fail 400 ''Session is full'' :: EnrollPTS response) \<noteq>
     fail 400 ''You are already enrolled in this session''"
    by (simp add: fail_def)
  moreover have "EnrollPTS_findOne (school_with [] [row 0 ''u-alice'' ''pending''])
       ''u-alice'' ''PT0001'' = Some (row 0 ''u-alice'' ''pending'')"
    by (simp add: EnrollPTS_findOne_def school_with_def row_def)
  moreover have "enrollStudent (school_with [] [row 0 ''u-alice'' ''pending'']) 7
       (token_of ''u-alice'' (Some True) None None) (Some ''PT0001'') =
     (school_with [] [row 0 ''u-alice'' ''pending''],
      fail 404 ''Physical training session not found'')"
    by (simp add: enrollStudent_def PhysicalTraining_findOne_def User_findOne_def
        school_with_def school_def token_of_def alice_def str_of_def Let_def)
  moreover have
    "res_status (fail 404 ''Physical training session not found'' :: EnrollPTS response) = 404"
    by (simp add: fail_def)
  ultimately show ?thesis
    using school_create [of 1] school_enroll_alice [of 0 1 "Some True" None None] by simp
qed

section \<open>Cancelling an enrollment\<close>

lemma cancel_found:
  assumes "EnrollPTS_findById s i = Some e"
  shows "cancelEnrollment s usr (Some i) =
     (if tok_id usr \<noteq> enroll_userID e \<and> \<not> truthy_bool (tok_isAdmin usr)
      then (s, fail 403 ''Access denied'')
      else
        (case PhysicalTraining_findOne s (enroll_sessionID e) of
           None \<Rightarrow> (s\<lparr>enrollments := remove1 e (enrollments s)\<rparr>,
                     ok 200 ''Enrollment canceled successfully'' None)
         | Some p \<Rightarrow>
             if status p = ''completed''
             then (s, fail 400 ''Cannot cancel enrollment for a completed session'')
             else (inc_currentCount (enroll_sessionID e) (- 1)
                     (s\<lparr>enrollments := remove1 e (enrollments s)\<rparr>),
                   ok 200 ''Enrollment canceled successfully'' None)))"
proof -
  from assms have "delete_first (\<lambda>x. enroll_id x = i) (enrollments s) = remove1 e (enrollments s)"
    by (simp add: EnrollPTS_findById_def find_delete_first)
  with assms show ?thesis
    by (simp add: cancelEnrollment_def Let_def split: option.splits)
qed

lemma inc_currentCount_found:
  assumes "PhysicalTraining_findOne s sid = Some p"
  shows "\<exists>k<length (sessions s). sessions s ! k = p \<and>
           sessions (inc_currentCount sid d s) =
             (sessions s)[k := p\<lparr>currentCount := currentCount p + d\<rparr>]"
    and "PhysicalTraining_findOne (inc_currentCount sid d s) sid =
           Some (p\<lparr>currentCount := currentCount p + d\<rparr>)"
    and "sid' \<noteq> sid \<Longrightarrow>
           PhysicalTraining_findOne (inc_currentCount sid d s) sid' =
           PhysicalTraining_findOne s sid'"
proof -
  from assms have f: "find (\<lambda>d. sessionID d = sid) (sessions s) = Some p"
    by (simp add: PhysicalTraining_findOne_def)
  from find_update_first [OF f, of "\<lambda>p. p\<lparr>currentCount := currentCount p + d\<rparr>"]
  show "\<exists>k<length (sessions s). sessions s ! k = p \<and>
           sessions (inc_currentCount sid d s) =
             (sessions s)[k := p\<lparr>currentCount := currentCount p + d\<rparr>]"
    by (simp add: inc_currentCount_def)
  show "PhysicalTraining_findOne (inc_currentCount sid d s) sid =
           Some (p\<lparr>currentCount := currentCount p + d\<rparr>)"
    using f by (simp add: PhysicalTraining_findOne_def inc_currentCount_def
        find_same_update_first)
  show "PhysicalTraining_findOne (inc_currentCount sid d s) sid' =
           PhysicalTraining_findOne s sid'" if "sid' \<noteq> sid"
    unfolding PhysicalTraining_findOne_def inc_currentCount_def
    using that by (simp, intro find_other_update_first) auto
qed

text \<open>
  C4. Let \<open>e\<close> be the enrollment with the requested \<open>_id\<close>. When the session it refers to
  exists, the cancel succeeds exactly for the owner or an admin on a session that is not
  completed, and a successful cancel removes the row \<open>e\<close> and lowers \<open>currentCount\<close> of
  that one session document by exactly 1, everything else staying as it was. When the
  session no longer exists, the cancel still succeeds for the owner or an admin: the
  row \<open>e\<close> is removed and no session is modified.
\<close>

theorem cancel_decrements:
  assumes "EnrollPTS_findById s i = Some e"
  shows "(case PhysicalTraining_findOne s (enroll_sessionID e) of
            Some p \<Rightarrow>
              (success (snd (cancelEnrollment s usr (Some i))) =
                 ((tok_id usr = enroll_userID e \<or> truthy_bool (tok_isAdmin usr)) \<and>
                  status p \<noteq> ''completed'')) \<and>
              (success (snd (cancelEnrollment s usr (Some i))) \<longrightarrow>
                 cancelEnrollment s usr (Some i) =
                   (inc_currentCount (enroll_sessionID e) (- 1)
                      (s\<lparr>enrollments := remove1 e (enrollments s)\<rparr>),
                    ok 200 ''Enrollment canceled successfully'' None) \<and>
                 enrollments (fst (cancelEnrollment s usr (Some i))) =
                   remove1 e (enrollments s) \<and>
                 (\<exists>k<length (sessions s). sessions s ! k = p \<and>
                    sessions (fst (cancelEnrollment s usr (Some i))) =
                      (sessions s)[k := p\<lparr>currentCount := currentCount p - 1\<rparr>]) \<and>
                 PhysicalTraining_findOne (fst (cancelEnrollment s usr (Some i)))
                     (enroll_sessionID e) =
                   Some (p\<lparr>currentCount := currentCount p - 1\<rparr>))
          | None \<Rightarrow>
              cancelEnrollment s usr (Some i) =
                (if tok_id usr = enroll_userID e \<or> truthy_bool (tok_isAdmin usr)
                 then (s\<lparr>enrollments := remove1 e (enrollments s)\<rparr>,
                       ok 200 ''Enrollment canceled successfully'' None)
                 else (s, fail 403 ''Access denied'')))"
proof (cases "PhysicalTraining_findOne s (enroll_sessionID e)")
  case None
  with cancel_found [OF assms, of usr] show ?thesis by auto
next
  case (Some p)
  let ?s1 = "s\<lparr>enrollments := remove1 e (enrollments s)\<rparr>"
  have p1: "PhysicalTraining_findOne ?s1 (enroll_sessionID e) = Some p"
    using Some by (simp add: PhysicalTraining_findOne_def)
  note inc = inc_currentCount_found [OF p1, where d = "- 1"]
  have e1: "enrollments (inc_currentCount (enroll_sessionID e) (- 1) ?s1) =
      remove1 e (enrollments s)"
    by (simp add: inc_currentCount_def)
  from inc(1) have s1: "\<exists>k<length (sessions s). sessions s ! k = p \<and>
      sessions (inc_currentCount (enroll_sessionID e) (- 1) ?s1) =
        (sessions s)[k := p\<lparr>currentCount := currentCount p - 1\<rparr>]"
    by simp
  from inc(2) have f1: "PhysicalTraining_findOne
      (inc_currentCount (enroll_sessionID e) (- 1) ?s1) (enroll_sessionID e) =
        Some (p\<lparr>currentCount := currentCount p - 1\<rparr>)"
    by simp
  show ?thesis
    using cancel_found [OF assms, of usr] Some e1 s1 f1
    by (auto simp: fail_def ok_def)
qed

text \<open>
  Alice cancels her seat, first with the session in place, then with the session gone.
\<close>

theorem cancel_decrements_witness:
  "cancelEnrollment (school_with [pt1 1 1 ''pending''] [row 0 ''u-alice'' ''pending''])
       (token_of ''u-alice'' (Some True) None None) (Some 0) =
     ((school_with [pt1 0 1 ''pending''] [])\<lparr>nextObjectId := 1\<rparr>,
      ok 200 ''Enrollment canceled successfully'' None) \<and>
   cancelEnrollment (school_with [] [row 0 ''u-alice'' ''pending''])
       (token_of ''u-alice'' (Some True) None None) (Some 0) =
     ((school_with [] [])\<lparr>nextObjectId := 1\<rparr>,
      ok 200 ''Enrollment canceled successfully'' None)"
  using cancel_decrements
      [of "school_with [pt1 1 1 ''pending''] [row 0 ''u-alice'' ''pending'']" 0
        "row 0 ''u-alice'' ''pending''" "token_of ''u-alice'' (Some True) None None"]
    cancel_decrements
      [of "school_with [] [row 0 ''u-alice'' ''pending'']" 0
        "row 0 ''u-alice'' ''pending''" "token_of ''u-alice'' (Some True) None None"]
  by (simp add: EnrollPTS_findById_def PhysicalTraining_findOne_def school_with_def
      school_def row_def pt1_def token_of_def inc_currentCount_def ok_def)

section \<open>Deleting a session\<close>

text \<open>
  C5. A delete request on an existing session \<open>p\<close>: with \<open>currentCount > 0\<close> it is answered
  400 ``Cannot delete session with enrolled users'' and the store is unchanged; with
  \<open>currentCount = 0\<close> it succeeds and the document \<open>p\<close> is removed from the sessions, so
  that (identifiers being distinct) no session answers to that identifier any more.
\<close>

theorem delete_session:
  assumes "PhysicalTraining_findOne s sid = Some p"
  shows "(0 < currentCount p \<longrightarrow>
            deletePhysicalTraining s sid =
              (s, fail 400 ''Cannot delete session with enrolled users'')) \<and>
         (currentCount p = 0 \<longrightarrow>
            deletePhysicalTraining s sid =
              (s\<lparr>sessions := remove1 p (sessions s)\<rparr>,
               ok 200 ''Physical training session deleted successfully'' None) \<and>
            (distinct (map sessionID (sessions s)) \<longrightarrow>
               PhysicalTraining_findOne (fst (deletePhysicalTraining s sid)) sid = None))"
proof -
  from assms have d: "delete_first (\<lambda>x. sessionID x = sid) (sessions s) = remove1 p (sessions s)"
    by (simp add: PhysicalTraining_findOne_def find_delete_first)
  have n: "distinct (map sessionID (sessions s)) \<Longrightarrow>
      find (\<lambda>x. sessionID x = sid) (delete_first (\<lambda>x. sessionID x = sid) (sessions s)) = None"
    by (rule find_delete_first_distinct)
  show ?thesis
    using assms d n by (auto simp: deletePhysicalTraining_def PhysicalTraining_findOne_def)
qed

theorem delete_session_witness:
  "deletePhysicalTraining (school_with [pt1 1 1 ''pending''] [row 0 ''u-alice'' ''pending''])
       ''PT0001'' =
     (school_with [pt1 1 1 ''pending''] [row 0 ''u-alice'' ''pending''],
      fail 400 ''Cannot delete session with enrolled users'') \<and>
   deletePhysicalTraining (school_with [pt1 0 1 ''pending''] []) ''PT0001'' =
     (school_with [] [], ok 200 ''Physical training session deleted successfully'' None) \<and>
   PhysicalTraining_findOne (school_with [] []) ''PT0001'' = None"
  using delete_session
      [of "school_with [pt1 1 1 ''pending''] [row 0 ''u-alice'' ''pending'']" "''PT0001''"
        "pt1 1 1 ''pending''"]
    delete_session [of "school_with [pt1 0 1 ''pending''] []" "''PT0001''" "pt1 0 1 ''pending''"]
  by (simp add: PhysicalTraining_findOne_def school_with_def school_def pt1_def)

section \<open>Minting a session identifier\<close>

lemma digits_lt10: "n < 10 \<Longrightarrow> digits n = [digit_char n]"
  by (subst digits.simps) simp

lemma digits_ge10: "10 \<le> n \<Longrightarrow> digits n = digits (n div 10) @ [digit_char (n mod 10)]"
  by (subst digits.simps) simp

lemma digit_char_0: "digit_char 0 = CHR ''0''"
  by code_simp

lemma replicate_small:
  "replicate 3 c = [c, c, c]" "replicate 2 c = [c, c]" "replicate (Suc 0) c = [c]"
  by (simp_all add: numeral_3_eq_3 numeral_2_eq_2)

lemma length_digits_pos: "0 < length (digits n)"
  by (subst digits.simps) simp

lemma padStart_four_digits:
  assumes "n < 10000"
  shows "padStart 4 CHR ''0'' (digits n) = four_digits n"
proof -
  consider "n < 10" | "10 \<le> n" "n < 100" | "100 \<le> n" "n < 1000" | "1000 \<le> n" "n < 10000"
    using assms by linarith
  then show ?thesis
  proof cases
    case 1
    then show ?thesis
      by (simp add: digits_lt10 padStart_def four_digits_def digit_char_0 replicate_small)
  next
    case 2
    then have "n div 10 < 10" by simp
    with 2 show ?thesis
      by (simp add: digits_ge10 digits_lt10 padStart_def four_digits_def digit_char_0
          replicate_small)
  next
    case 3
    then have a: "n div 10 div 10 < 10" "10 \<le> n div 10" by simp_all
    have b: "n div 10 div 10 = n div 100" by (simp add: div_mult2_eq [symmetric])
    from 3 a b show ?thesis
      by (simp add: digits_ge10 digits_lt10 padStart_def four_digits_def digit_char_0
          replicate_small)
  next
    case 4
    then have a: "n div 10 div 10 div 10 < 10" "10 \<le> n div 10" "10 \<le> n div 10 div 10"
      by simp_all
    have b: "n div 10 div 10 = n div 100" "n div 10 div 10 div 10 = n div 1000"
      by (simp_all add: div_mult2_eq [symmetric])
    from 4 a b show ?thesis
      by (simp add: digits_ge10 digits_lt10 padStart_def four_digits_def)
  qed
qed

text \<open>The minted digits denote the counter value.\<close>

lemma digit_value_char: "d < 10 \<Longrightarrow> of_char (digit_char d) - 48 = d"
  by (simp add: digit_char_def)

lemma digits_value_snoc:
  "digits_value (cs @ [c]) = 10 * digits_value cs + (of_char c - 48)"
  by (simp add: digits_value_def)

lemma digits_value_digits: "digits_value (digits n) = n"
proof (induction n rule: digits.induct)
  case (1 n)
  show ?case
  proof (cases "n < 10")
    case True
    then show ?thesis
      by (simp add: digits_lt10 digits_value_def digit_value_char)
  next
    case False
    with 1 have "digits_value (digits (n div 10)) = n div 10" by simp
    with False show ?thesis
      by (simp add: digits_ge10 digits_value_snoc digit_value_char)
  qed
qed

lemma digits_value_zero: "digits_value (replicate k CHR ''0'' @ cs) = digits_value cs"
  by (induction k) (simp_all add: digits_value_def)

lemma padStart_value: "digits_value (padStart 4 CHR ''0'' (digits n)) = n"
  by (simp add: padStart_def digits_value_zero digits_value_digits)

lemma find_append_new:
  "find P xs = None \<Longrightarrow> P c \<Longrightarrow> find P (xs @ [c]) = Some c"
  by (induction xs) (auto split: if_splits)

lemma getNextSequenceValue_value:
  "getNextSequenceValue s n = (s', i) \<Longrightarrow>
     i = ''PT'' @ padStart 4 CHR ''0'' (String_num (next_value s n)) \<and>
     map_option counter_value (Counter_findOne s' n) = Some (next_value s n) \<and>
     sessions s' = sessions s \<and> users s' = users s \<and> enrollments s' = enrollments s \<and>
     vehicles s' = vehicles s \<and> instructors s' = instructors s"
  by (auto simp: getNextSequenceValue_def next_value_def Counter_findOne_def
      find_append_new find_same_update_first split: option.splits)

text \<open>
  C8. A create request with all required fields, whose vehicle and instructor exist,
  succeeds with 201: the counter \<open>sessionID\<close> is incremented (or starts at 1), the new
  session is appended, its identifier is \<open>PT\<close> followed by the new counter value padded
  with zeros to four digits (the four decimal digits themselves while the value is below
  10000; at least four digits that denote the value in any case), its \<open>currentCount\<close> is
  0 and its status is \<open>pending\<close>.
\<close>

theorem create_mints_identifier:
  assumes "truthy_str (body_date b)" and "truthy_str (body_time b)"
    and "truthy_str (body_location b)" and "truthy_str (body_vehicleID b)"
    and "truthy_str (body_instructorID b)" and "truthy_num (body_maxCount b)"
    and "Vehicle_findOne s (str_of (body_vehicleID b)) = Some v"
    and "Instructor_findOne s (str_of (body_instructorID b)) = Some ins"
  shows "\<exists>s' p. createPhysicalTraining s b =
           (s', ok 201 ''Physical training session created successfully'' (Some p)) \<and>
         sessions s' = sessions s @ [p] \<and>
         map_option counter_value (Counter_findOne s' ''sessionID'') =
           Some (next_value s ''sessionID'') \<and>
         sessionID p = ''PT'' @ padStart 4 CHR ''0'' (String_num (next_value s ''sessionID'')) \<and>
         (0 \<le> next_value s ''sessionID'' \<and> next_value s ''sessionID'' < 10000 \<longrightarrow>
            sessionID p = ''PT'' @ four_digits (nat (next_value s ''sessionID''))) \<and>
         (0 \<le> next_value s ''sessionID'' \<longrightarrow>
            4 \<le> length (drop 2 (sessionID p)) \<and>
            digits_value (drop 2 (sessionID p)) = nat (next_value s ''sessionID'')) \<and>
         currentCount p = 0 \<and> status p = ''pending''"
proof -
  obtain s1 i where g: "getNextSequenceValue s ''sessionID'' = (s1, i)"
    by (cases "getNextSequenceValue s ''sessionID''")
  note v = getNextSequenceValue_value [OF g]
  have four: "0 \<le> next_value s ''sessionID'' \<and> next_value s ''sessionID'' < 10000 \<longrightarrow>
      padStart 4 CHR ''0'' (String_num (next_value s ''sessionID'')) =
        four_digits (nat (next_value s ''sessionID''))"
    by (auto simp: String_num_def intro: padStart_four_digits)
  have val: "0 \<le> next_value s ''sessionID'' \<longrightarrow>
      4 \<le> length (padStart 4 CHR ''0'' (String_num (next_value s ''sessionID''))) \<and>
      digits_value (padStart 4 CHR ''0'' (String_num (next_value s ''sessionID''))) =
        nat (next_value s ''sessionID'')"
  proof
    assume "0 \<le> next_value s ''sessionID''"
    then have "String_num (next_value s ''sessionID'') = digits (nat (next_value s ''sessionID''))"
      by (simp add: String_num_def)
    moreover have "4 \<le> length (padStart 4 CHR ''0'' (digits (nat (next_value s ''sessionID''))))"
      by (simp add: padStart_def)
    ultimately show "4 \<le> length (padStart 4 CHR ''0'' (String_num (next_value s ''sessionID''))) \<and>
      digits_value (padStart 4 CHR ''0'' (String_num (next_value s ''sessionID''))) =
        nat (next_value s ''sessionID'')"
      by (simp add: padStart_value)
  qed
  show ?thesis
    using assms g v four val
    by (simp add: createPhysicalTraining_def Let_def Counter_findOne_def)
qed

text \<open>The first session of the school is \<open>PT0001\<close>.\<close>

theorem create_mints_identifier_witness:
  "createPhysicalTraining school (seats 3) =
     (school_with [pt1 0 3 ''pending''] [],
      ok 201 ''Physical training session created successfully'' (Some (pt1 0 3 ''pending''))) \<and>
   sessionID (pt1 0 3 ''pending'') = ''PT'' @ four_digits 1 \<and>
   currentCount (pt1 0 3 ''pending'') = 0 \<and> status (pt1 0 3 ''pending'') = ''pending''"
proof -
  have n: "next_value school ''sessionID'' = 1"
    by (simp add: next_value_def Counter_findOne_def school_def)
  have "\<exists>s' p. createPhysicalTraining school (seats 3) =
           (s', ok 201 ''Physical training session created successfully'' (Some p)) \<and>
         sessions s' = sessions school @ [p] \<and>
         map_option counter_value (Counter_findOne s' ''sessionID'') =
           Some (next_value school ''sessionID'') \<and>
         sessionID p =
           ''PT'' @ padStart 4 CHR ''0'' (String_num (next_value school ''sessionID'')) \<and>
         (0 \<le> next_value school ''sessionID'' \<and> next_value school ''sessionID'' < 10000 \<longrightarrow>
            sessionID p = ''PT'' @ four_digits (nat (next_value school ''sessionID''))) \<and>
         (0 \<le> next_value school ''sessionID'' \<longrightarrow>
            4 \<le> length (drop 2 (sessionID p)) \<and>
            digits_value (drop 2 (sessionID p)) = nat (next_value school ''sessionID'')) \<and>
         currentCount p = 0 \<and> status p = ''pending''"
    by (rule create_mints_identifier [of "seats 3" school car nimal])
      (simp_all add: seats_def school_def Vehicle_findOne_def Instructor_findOne_def
        car_def nimal_def str_of_def)
  then obtain s' p where
    c: "createPhysicalTraining school (seats 3) =
         (s', ok 201 ''Physical training session created successfully'' (Some p))"
    and i: "sessionID p = ''PT'' @ four_digits 1"
    and z: "currentCount p = 0" "status p = ''pending''"
    using n by auto
  from c school_create [of 3] have "p = pt1 0 3 ''pending''"
    by (simp add: ok_def)
  with c i z school_create [of 3] show ?thesis by simp
qed

section \<open>The capacity bound under a session update\<close>

lemma updateData_counts:
  "updateData (counts (Some m) None) p = p\<lparr>maxCount := m\<rparr>"
  by (simp add: updateData_def counts_def)

text \<open>Enrolling keeps the bound.\<close>

lemma enroll_keeps_capacity:
  assumes "capacity_ok s"
  shows "capacity_ok (fst (enrollStudent s now usr sid))"
proof (cases "success (snd (enrollStudent s now usr sid))")
  case False
  with assms show ?thesis by (simp add: enrollStudent_fails_unchanged)
next
  case True
  then obtain p where p: "PhysicalTraining_findOne s (str_of sid) = Some p"
      "currentCount p < maxCount p"
    and s': "sessions (fst (enrollStudent s now usr sid)) =
      update_first (\<lambda>x. sessionID x = str_of sid)
        (\<lambda>x. x\<lparr>currentCount := currentCount x + 1\<rparr>) (sessions s)"
    by (auto simp: enrollStudent_def Let_def fail_def inc_currentCount_def
        split: option.splits if_splits)
  from p(1) have f: "find (\<lambda>x. sessionID x = str_of sid) (sessions s) = Some p"
    by (simp add: PhysicalTraining_findOne_def)
  then have "p \<in> set (sessions s)" by (auto simp: find_Some_iff)
  with assms have "0 \<le> currentCount p" by (simp add: capacity_ok_def)
  with p(2) assms set_update_first [OF f, of "\<lambda>x. x\<lparr>currentCount := currentCount x + 1\<rparr>"]
  show ?thesis
    unfolding capacity_ok_def s' by auto
qed

text \<open>
  C1 (the code departs from it). The bound \<open>currentCount \<le> maxCount\<close> is not kept by
  \<open>updatePhysicalTraining\<close>: the handler compares the two counts only when the request
  carries \<open>currentCount\<close>. A request that carries \<open>maxCount\<close> alone, below the stored
  \<open>currentCount\<close>, is answered 200 and leaves a session with \<open>maxCount < currentCount\<close>.
\<close>

theorem update_lowers_maxCount:
  assumes "PhysicalTraining_findOne s sid = Some p"
    and "m < currentCount p"
  shows "updatePhysicalTraining s sid (counts (Some m) None) =
           (s\<lparr>sessions := update_first (\<lambda>x. sessionID x = sid) (\<lambda>x. x\<lparr>maxCount := m\<rparr>)
                              (sessions s)\<rparr>,
            ok 200 ''Physical training session updated successfully''
              (Some (p\<lparr>maxCount := m\<rparr>))) \<and>
         PhysicalTraining_findOne (fst (updatePhysicalTraining s sid (counts (Some m) None))) sid =
           Some (p\<lparr>maxCount := m\<rparr>) \<and>
         maxCount (p\<lparr>maxCount := m\<rparr>) < currentCount (p\<lparr>maxCount := m\<rparr>) \<and>
         \<not> capacity_ok (fst (updatePhysicalTraining s sid (counts (Some m) None)))"
proof -
  have u: "updateData (counts (Some m) None) = (\<lambda>x. x\<lparr>maxCount := m\<rparr>)"
    by (rule ext) (simp add: updateData_counts)
  from assms(1) have f: "find (\<lambda>d. sessionID d = sid)
      (update_first (\<lambda>x. sessionID x = sid) (\<lambda>x. x\<lparr>maxCount := m\<rparr>) (sessions s)) =
      Some (p\<lparr>maxCount := m\<rparr>)"
    by (simp add: PhysicalTraining_findOne_def find_same_update_first)
  have c: "body_maxCount (counts (Some m) None) = Some m"
    "body_currentCount (counts (Some m) None) = None"
    "body_date (counts (Some m) None) = None" "body_time (counts (Some m) None) = None"
    "body_location (counts (Some m) None) = None" "body_vehicleID (counts (Some m) None) = None"
    "body_instructorID (counts (Some m) None) = None" "body_status (counts (Some m) None) = None"
    "body_instructorQualification (counts (Some m) None) = None"
    by (simp_all add: counts_def)
  have r: "updatePhysicalTraining s sid (counts (Some m) None) =
           (s\<lparr>sessions := update_first (\<lambda>x. sessionID x = sid) (\<lambda>x. x\<lparr>maxCount := m\<rparr>)
                              (sessions s)\<rparr>,
            ok 200 ''Physical training session updated successfully''
              (Some (p\<lparr>maxCount := m\<rparr>)))"
    using assms f by (simp add: updatePhysicalTraining_def Let_def u c PhysicalTraining_findOne_def)
  from f have "p\<lparr>maxCount := m\<rparr> \<in>
      set (update_first (\<lambda>x. sessionID x = sid) (\<lambda>x. x\<lparr>maxCount := m\<rparr>) (sessions s))"
    by (auto simp: find_Some_iff)
  with assms(2) have n: "\<not> capacity_ok (fst (updatePhysicalTraining s sid (counts (Some m) None)))"
    unfolding r capacity_ok_def by force
  from r f n assms(2) show ?thesis
    by (simp add: PhysicalTraining_findOne_def)
qed

text \<open>
  From the small school: the first session is created with one seat, Alice enrolls, and
  the update \<open>{ maxCount: 0 }\<close> goes through; the store then holds a session with
  \<open>currentCount = 1\<close> and \<open>maxCount = 0\<close>.
\<close>

theorem update_lowers_maxCount_witness:
  "createPhysicalTraining school (seats 1) =
     (school_with [pt1 0 1 ''pending''] [],
      ok 201 ''Physical training session created successfully'' (Some (pt1 0 1 ''pending''))) \<and>
   enrollStudent (school_with [pt1 0 1 ''pending''] []) 0
       (token_of ''u-alice'' (Some True) None None) (Some ''PT0001'') =
     (school_with [pt1 1 1 ''pending''] [row 0 ''u-alice'' ''pending''],
      ok 201 ''Successfully enrolled in physical training session''
        (Some (row 0 ''u-alice'' ''pending''))) \<and>
   updatePhysicalTraining (school_with [pt1 1 1 ''pending''] [row 0 ''u-alice'' ''pending''])
       ''PT0001'' (counts (Some 0) None) =
     (school_with [pt1 1 0 ''pending''] [row 0 ''u-alice'' ''pending''],
      ok 200 ''Physical training session updated successfully'' (Some (pt1 1 0 ''pending''))) \<and>
   maxCount (pt1 1 0 ''pending'') < currentCount (pt1 1 0 ''pending'') \<and>
   \<not> capacity_ok (school_with [pt1 1 0 ''pending''] [row 0 ''u-alice'' ''pending''])"
proof -
  have f: "PhysicalTraining_findOne
      (school_with [pt1 1 1 ''pending''] [row 0 ''u-alice'' ''pending'']) ''PT0001'' =
      Some (pt1 1 1 ''pending'')"
    by (simp add: PhysicalTraining_findOne_def school_with_def pt1_def)
  have c: "0 < currentCount (pt1 1 1 ''pending'')"
    by (simp add: pt1_def)
  note th = update_lowers_maxCount [OF f c]
  from th have u: "updatePhysicalTraining
       (school_with [pt1 1 1 ''pending''] [row 0 ''u-alice'' ''pending''])
       ''PT0001'' (counts (Some 0) None) =
     (school_with [pt1 1 0 ''pending''] [row 0 ''u-alice'' ''pending''],
      ok 200 ''Physical training session updated successfully'' (Some (pt1 1 0 ''pending'')))"
    by (simp add: school_with_def pt1_def)
  from th have "\<not> capacity_ok (fst (updatePhysicalTraining
       (school_with [pt1 1 1 ''pending''] [row 0 ''u-alice'' ''pending''])
       ''PT0001'' (counts (Some 0) None)))"
    by blast
  then have n: "\<not> capacity_ok (school_with [pt1 1 0 ''pending''] [row 0 ''u-alice'' ''pending''])"
    by (simp add: u)
  have m: "maxCount (pt1 1 0 ''pending'') < currentCount (pt1 1 0 ''pending'')"
    by (simp add: pt1_def)
  have cr: "createPhysicalTraining school (seats 1) =
     (school_with [pt1 0 1 ''pending''] [],
      ok 201 ''Physical training session created successfully'' (Some (pt1 0 1 ''pending'')))"
    using school_create [of 1] by simp
  have en: "enrollStudent (school_with [pt1 0 1 ''pending''] []) 0
       (token_of ''u-alice'' (Some True) None None) (Some ''PT0001'') =
     (school_with [pt1 1 1 ''pending''] [row 0 ''u-alice'' ''pending''],
      ok 201 ''Successfully enrolled in physical training session''
        (Some (row 0 ''u-alice'' ''pending'')))"
    using school_enroll_alice [of 0 1 "Some True" None None] by simp
  from cr en u m n show ?thesis
    by (intro conjI)
qed

section \<open>Who may change the status of an enrollment\<close>

lemma enrollPTS_patch_any_role:
  "enrollPTS_patch s (ValidToken usr) eid st = updateEnrollmentStatus s eid st"
  by (simp add: enrollPTS_patch_def authenticate_def)

text \<open>
  C6 (the code departs from it). The route \<open>PATCH /api/enroll-pts/:id\<close> runs
  \<open>authenticate\<close> and then the handler, with no role gate in between, and the handler
  checks no role either. Bob, whose token carries neither the admin nor the instructor
  flag, sets the status of Alice's enrollment: the answer is 200 and the row changes.
\<close>

theorem patch_status_without_role:
  "enrollPTS_patch (school_with [pt1 1 1 ''pending''] [row 0 ''u-alice'' ''pending''])
       (ValidToken (token_of ''u-bob'' (Some True) None None)) (Some 0) (Some ''completed'') =
     (school_with [pt1 1 1 ''pending''] [row 0 ''u-alice'' ''completed''],
      ok 200 ''Enrollment status updated to \"completed\"''
        (Some (row 0 ''u-alice'' ''completed''))) \<and>
   tok_isAdmin (token_of ''u-bob'' (Some True) None None) = None \<and>
   tok_isInstructor (token_of ''u-bob'' (Some True) None None) = None"
  by (simp add: enrollPTS_patch_def authenticate_def updateEnrollmentStatus_def str_of_def
      EnrollPTS_findById_def school_with_def row_def token_of_def Let_def)

section \<open>What the issued tokens carry\<close>

lemma register_token:
  assumes "register ev s b = (s', r)" and "payload r = Some (u, tk)"
  shows "tok_id (token_payload_of tk) = userID u \<and> tok_email (token_payload_of tk) = email u \<and>
         tok_username (token_payload_of tk) = username u \<and> expiresIn tk = ''24h'' \<and>
         tok_isStudent (token_payload_of tk) = None \<and>
         tok_isInstructor (token_payload_of tk) = None \<and>
         tok_isAdmin (token_payload_of tk) = None"
  using assms
  by (auto simp: register_def User_save_def Let_def fail_def ok_def jwt_sign_def JWT_EXPIRES_IN_def
      UserPublic.truncate_def split: option.splits)

lemma login_token:
  assumes "login ev s em pw = r" and "payload r = Some (u, tk)"
  shows "tok_id (token_payload_of tk) = userID u \<and> tok_email (token_payload_of tk) = email u \<and>
         tok_username (token_payload_of tk) = username u \<and> expiresIn tk = ''24h'' \<and>
         tok_isStudent (token_payload_of tk) = None \<and>
         tok_isInstructor (token_payload_of tk) = None \<and>
         tok_isAdmin (token_payload_of tk) = None"
  using assms
  by (auto simp: login_def Let_def fail_def ok_def jwt_sign_def JWT_EXPIRES_IN_def
      UserPublic.truncate_def split: option.splits if_splits)

lemma instructorLogin_token:
  assumes "instructorLogin ev s em pw = r" and "payload r = Some (u, tk)"
  shows "tok_id (token_payload_of tk) = InstructorID u \<and>
         tok_email (token_payload_of tk) = instructor_email u \<and>
         tok_name (token_payload_of tk) = Some (InstructorName u) \<and> expiresIn tk = ''24h'' \<and>
         tok_isInstructor (token_payload_of tk) = Some True \<and>
         tok_isStudent (token_payload_of tk) = None \<and>
         tok_isAdmin (token_payload_of tk) = None"
  using assms
  by (auto simp: instructorLogin_def Let_def fail_def ok_def jwt_sign_def
      InstructorPublic.truncate_def split: option.splits if_splits)

text \<open>
  C7 (the code departs from it). Carol registers as a student. The token she is issued
  carries her id, her email, her username and the validity \<open>24h\<close>, but none of the role
  flags, although the stored account has \<open>isStudent = true\<close>; the student gate of
  \<open>POST /api/enroll-pts\<close>, which reads the flag from the token, turns that token away.
\<close>

theorem register_token_without_role_flags:
  "register test_env school carol_body =
     (school\<lparr>users := [alice, bob, carol]\<rparr>,
      ok 201 ''User registered successfully''
        (Some (UserPublic.truncate carol,
               \<lparr>token_payload_of =
                  \<lparr>tok_id = ''u-carol'', tok_email = ''carol@example.com'',
                   tok_username = Some ''alice'', tok_name = None, tok_isStudent = None,
                   tok_isInstructor = None, tok_isAdmin = None\<rparr>,
                expiresIn = ''24h''\<rparr>))) \<and>
   isStudent carol \<and>
   enrollPTS_post (school\<lparr>users := [alice, bob, carol]\<rparr>) 0
       (ValidToken \<lparr>tok_id = ''u-carol'', tok_email = ''carol@example.com'',
                   tok_username = Some ''alice'', tok_name = None, tok_isStudent = None,
                   tok_isInstructor = None, tok_isAdmin = None\<rparr>)
       (Some ''PT0001'') =
     (school\<lparr>users := [alice, bob, carol]\<rparr>, fail 403 ''Access denied. Student role required.'')"
  by (simp add: register_def User_save_def User_findOne_email_def school_def alice_def bob_def carol_def
      carol_body_def test_env_def jwt_sign_def JWT_EXPIRES_IN_def Let_def
      enrollPTS_post_def authenticate_def checkRole_isStudent_def)

section \<open>Registration\<close>

text \<open>
  C9. When a registration succeeds, the user document appended to the store has
  \<open>isStudent = true\<close> if the body left the field out, and the supplied value otherwise.
\<close>

theorem register_isStudent_default:
  assumes "register ev s b = (s', r)" and "success r"
  shows "\<exists>u. users s' = users s @ [u] \<and>
           isStudent u = (case reg_isStudent b of None \<Rightarrow> True | Some v \<Rightarrow> v)"
  using assms
  by (auto simp: register_def User_save_def Let_def fail_def ok_def split: option.splits)

text \<open>Carol registers without the field, and once more with \<open>isStudent: false\<close>.\<close>

theorem register_isStudent_default_witness:
  "users (fst (register test_env school carol_body)) = users school @ [carol] \<and>
   reg_isStudent carol_body = None \<and> isStudent carol = True \<and>
   users (fst (register test_env school (carol_body\<lparr>reg_isStudent := Some False\<rparr>))) =
     users school @ [carol\<lparr>isStudent := False\<rparr>] \<and>
   isStudent (carol\<lparr>isStudent := False\<rparr>) = False"
proof -
  have a: "register test_env school carol_body =
      (school\<lparr>users := users school @ [carol]\<rparr>,
       ok 201 ''User registered successfully''
         (Some (UserPublic.truncate carol,
            jwt_sign \<lparr>tok_id = ''u-carol'', tok_email = ''carol@example.com'',
                   tok_username = Some ''alice'', tok_name = None, tok_isStudent = None,
                   tok_isInstructor = None, tok_isAdmin = None\<rparr> JWT_EXPIRES_IN)))"
    by (simp add: register_def User_save_def User_findOne_email_def school_def alice_def bob_def carol_def
      carol_body_def test_env_def Let_def)
  have b: "register test_env school (carol_body\<lparr>reg_isStudent := Some False\<rparr>) =
      (school\<lparr>users := users school @ [carol\<lparr>isStudent := False\<rparr>]\<rparr>,
       ok 201 ''User registered successfully''
         (Some (UserPublic.truncate (carol\<lparr>isStudent := False\<rparr>),
            jwt_sign \<lparr>tok_id = ''u-carol'', tok_email = ''carol@example.com'',
                   tok_username = Some ''alice'', tok_name = None, tok_isStudent = None,
                   tok_isInstructor = None, tok_isAdmin = None\<rparr> JWT_EXPIRES_IN)))"
    by (simp add: register_def User_save_def User_findOne_email_def school_def alice_def bob_def carol_def
      carol_body_def test_env_def Let_def)
  have c: "users (fst (register test_env school carol_body)) = users school @ [carol]"
    "users (fst (register test_env school (carol_body\<lparr>reg_isStudent := Some False\<rparr>))) =
       users school @ [carol\<lparr>isStudent := False\<rparr>]"
    by (simp_all add: a b)
  have d: "reg_isStudent carol_body = None" "isStudent carol = True"
    by (simp_all add: carol_body_def carol_def)
  from register_isStudent_default [OF a] register_isStudent_default [OF b] c d
  show ?thesis
    by (simp add: ok_def)
qed

text \<open>
  C10. The duplicate rejection of \<open>register\<close> is answered exactly when a stored user has
  the email of the request; usernames are never compared. A request whose email matches
  no stored user succeeds exactly when it carries a password (without one the hashing
  throws and the answer is 500); it is then answered 201 and the new user is stored under
  the requested username, whether or not another user already has it.
\<close>

theorem register_precheck_email_only:
  "((snd (register ev s b) = fail 400 ''User with this email or username already exists'') =
      (\<exists>u\<in>set (users s). email u = reg_email b)) \<and>
   ((\<forall>u\<in>set (users s). email u \<noteq> reg_email b) \<longrightarrow>
      (success (snd (register ev s b)) = (reg_password b \<noteq> None)) \<and>
      (\<forall>pw. reg_password b = Some pw \<longrightarrow>
         (\<exists>u tk. register ev s b =
                   (s\<lparr>users := users s @ [u]\<rparr>,
                    ok 201 ''User registered successfully''
                      (Some (UserPublic.truncate u, tk))) \<and>
                 username u = reg_username b \<and> email u = reg_email b)))"
proof -
  have n: "(User_findOne_email s (reg_email b) = None) =
      (\<forall>u\<in>set (users s). email u \<noteq> reg_email b)"
    by (auto simp: User_findOne_email_def find_None_iff)
  show ?thesis
  proof (cases "User_findOne_email s (reg_email b)")
    case None
    with n show ?thesis
      by (auto simp: register_def User_save_def Let_def fail_def ok_def split: option.splits)
  next
    case (Some x)
    with n show ?thesis
      by (auto simp: register_def)
  qed
qed

text \<open>Carol registers under the username \<open>alice\<close>, which Alice already uses.\<close>

theorem register_precheck_email_only_witness:
  "(\<exists>u\<in>set (users school). username u = reg_username carol_body) \<and>
   (\<exists>u tk. register test_env school carol_body =
             (school\<lparr>users := users school @ [u]\<rparr>,
              ok 201 ''User registered successfully'' (Some (UserPublic.truncate u, tk))) \<and>
           username u = reg_username carol_body \<and> email u = reg_email carol_body)"
  using register_precheck_email_only [of test_env school carol_body]
  by (simp add: school_def alice_def bob_def carol_body_def)

end
